theory Spec2Isabelle
  imports Main "HOL-Library.Word" "HOL-Library.Sublist"
begin

unbundle bit_operations_syntax

section \<open>Machine types\<close>

text \<open>
  The engine runs on amd64 and arm64 only (\<open>instantiateCraneLiftModule\<close> selects the
  target from \<open>runtime.GOARCH\<close>), so Go's \<open>int\<close> and \<open>uintptr\<close> are 64 bits wide.
  An \<open>int\<close> is a 64-bit word read with \<open>sint\<close>; \<open>uint32\<close> is a 32-bit word read
  with \<open>uint\<close>; an address is a 64-bit word, \<open>0\<close> being \<open>nil\<close>.
\<close>

type_synonym byte = "8 word"
type_synonym uint32 = "32 word"
type_synonym uint64 = "64 word"
type_synonym goint = "64 word"
type_synonym uintptr = "64 word"

text \<open>A Go panic and a returned \<open>error\<close> are the two ways a call fails.\<close>

datatype failure = Panic string | Error string

section \<open>The module descriptor (\<open>engineext.Module\<close>)\<close>

text \<open>
  The interface is consumed through its methods; the record holds what each method
  returns. \<open>CodeAt i\<close> is the \<open>i\<close>-th entry of \<open>codes\<close> (local types, body) and
  \<open>CodeCount\<close> is the length of \<open>codes\<close>. \<open>ModuleID\<close> is an opaque identifier.
\<close>

record Module =
  ModuleID :: nat
  HostModule :: bool
  ImportFuncCount :: uint32
  LocalMemoriesCount :: uint32
  ImportedMemoriesCount :: uint32
  codes :: "(byte list \<times> byte list) list"

section \<open>VM-context layout\<close>

record opaqueVmContextOffsets =
  totalSize :: goint
  localMemoryBegin :: goint
  importedMemoryBegin :: goint
  importedFunctionsBegin :: goint

text \<open>
  \<open>getOpaqueVmContextOffsets\<close>: \<open>ret\<close> starts zeroed, \<open>offset\<close> at 0; the two
  \<open>if\<close> statements run in the order of the source, then the imported functions.
\<close>

definition getOpaqueVmContextOffsets :: "Module \<Rightarrow> opaqueVmContextOffsets" where
  "getOpaqueVmContextOffsets m =
    (let ret0 = \<lparr>totalSize = 0, localMemoryBegin = 0, importedMemoryBegin = 0,
                  importedFunctionsBegin = 0\<rparr>;
         offset0 = (0 :: goint);
         (ret1, offset1) =
           (if LocalMemoriesCount m > 0
            then (ret0\<lparr>localMemoryBegin := offset0, totalSize := totalSize ret0 + 16\<rparr>,
                  offset0 + 16)
            else (ret0\<lparr>localMemoryBegin := - 1\<rparr>, offset0));
         (ret2, offset2) =
           (if ImportedMemoriesCount m > 0
            then (ret1\<lparr>importedMemoryBegin := offset1, totalSize := totalSize ret1 + 8\<rparr>,
                  offset1 + 8)
            else (ret1\<lparr>importedMemoryBegin := - 1\<rparr>, offset1));
         ret3 = ret2\<lparr>importedFunctionsBegin := offset2\<rparr>
     in ret3\<lparr>totalSize := totalSize ret3 + ucast (ImportFuncCount m) * 16\<rparr>)"

section \<open>Byte buffers and little-endian words\<close>


definition Uint64 :: "byte list \<Rightarrow> uint64" where
  "Uint64 b = ucast (b ! 0) OR push_bit 8 (ucast (b ! 1)) OR push_bit 16 (ucast (b ! 2))
              OR push_bit 24 (ucast (b ! 3)) OR push_bit 32 (ucast (b ! 4))
              OR push_bit 40 (ucast (b ! 5)) OR push_bit 48 (ucast (b ! 6))
              OR push_bit 56 (ucast (b ! 7))"

definition le_bytes64 :: "uint64 \<Rightarrow> byte list" where
  "le_bytes64 v = [ucast v, ucast (drop_bit 8 v), ucast (drop_bit 16 v), ucast (drop_bit 24 v),
                   ucast (drop_bit 32 v), ucast (drop_bit 40 v), ucast (drop_bit 48 v),
                   ucast (drop_bit 56 v)]"

definition PutUint64 :: "byte list \<Rightarrow> goint \<Rightarrow> uint64 \<Rightarrow> failure + byte list" where
  "PutUint64 buf off v =
    (if sint off < 0 \<or> int (length buf) < sint off + 8
     then Inl (Panic ''runtime error: slice bounds out of range'')
     else Inr (take (nat (sint off)) buf @ le_bytes64 v @ drop (nat (sint off) + 8) buf))"


text \<open>A \<open>[]byte\<close> held by the host: the address of its first byte and its contents.\<close>

record byteSlice =
  sliceAddr :: uintptr
  sliceBytes :: "byte list"

section \<open>Handles of the host runtime (\<open>engineext\<close>)\<close>

text \<open>
  \<open>handleID\<close> is the identity of the instance handle, the key of \<open>vmctxs\<close>.
  \<open>ImportedFunctions\<close> returns two parallel slices: the instances imported from and the
  function index inside each.
\<close>

record ModuleInstance =
  handleID :: nat
  ModuleInstanceName :: string
  MemoryInstanceBuffer :: byteSlice
  ImportedMemoryInstancePtr :: uintptr
  ImportedFunctions :: "nat list \<times> uint32 list"

record FunctionInstance =
  fnModuleInstanceName :: string
  FunctionType :: "byte list \<times> byte list"
  Index :: uint32

section \<open>Compile-time and instantiation-time objects\<close>

text \<open>\<open>functionRelocationEntry\<close> is the pair \<open>(index, offset)\<close>.\<close>

record pendingCompiledBody =
  machineCode :: "byte list"
  relocs :: "(uint32 \<times> uint32) list"

text \<open>
  \<open>executableAddr\<close> is the address of \<open>executable[0]\<close> in the mapped region.
  \<open>executableOffsets\<close> holds running sums of slice lengths, which cannot overflow a
  64-bit \<open>int\<close>; they are natural numbers here.
\<close>

record compiledModule =
  executable :: "byte list"
  executableAddr :: uintptr
  executableOffsets :: "nat list"
  vmOffsets :: opaqueVmContextOffsets

text \<open>
  An imported function slot. \<open>imported_vmctx\<close> is \<open>None\<close> for the \<open>nil\<close> pointer of
  a slot never filled; otherwise it carries the \<open>opaqueVmContextPtr\<close> of the context
  pointed to, the only field read through the pointer and never reassigned once the
  context is registered.
\<close>

record vmContextImportedFunction =
  imported_executable :: uintptr
  imported_vmctx :: "uintptr option"

record vmContext =
  opaqueVmContextPtr :: uintptr
  parent :: "compiledModule option"
  importedFunctions :: "vmContextImportedFunction list"
  module :: "ModuleInstance option"
  opaqueVmContext :: "byte list"

record engine =
  modules :: "nat \<rightharpoonup> compiledModule"
  pendingCompiledFunctions :: "nat \<rightharpoonup> pendingCompiledBody list"
  vmctxs :: "nat \<rightharpoonup> vmContext"

text \<open>
  Where the Go allocator places the objects a call creates: the buffer of
  \<open>make([]byte, totalSize)\<close>, the local variable \<open>memBuf\<close> of
  \<open>buildOpaqueVMContext\<close>, the stack and the results holder of \<open>NewCallEngine\<close>.
\<close>

record allocator =
  newOpaqueVmContext :: uintptr
  memBufVar :: uintptr
  newStack :: uintptr
  newResultsHolder :: uintptr

section \<open>Resolving a function's entry\<close>

definition resolveFunctionExecutable :: "vmContext \<Rightarrow> uint32 \<Rightarrow> failure + uintptr" where
  "resolveFunctionExecutable vm functionIndex =
    (let localIndex = uint functionIndex - int (length (importedFunctions vm)) in
     if localIndex \<ge> 0 then
       (case parent vm of
          None \<Rightarrow> Inl (Panic ''runtime error: invalid memory address or nil pointer dereference'')
        | Some compiled \<Rightarrow>
            if length (executableOffsets compiled) \<le> nat localIndex
            then Inl (Panic ''runtime error: index out of range'')
            else if length (executable compiled) \<le> executableOffsets compiled ! nat localIndex
            then Inl (Panic ''runtime error: index out of range'')
            else Inr (executableAddr compiled
                      + of_nat (executableOffsets compiled ! nat localIndex)))
     else Inl (Panic ''BUG: resolveFunction must be called only on locally defined functions''))"

section \<open>Materialising the VM context\<close>

fun writeImportedFunctions ::
  "vmContextImportedFunction list \<Rightarrow> goint \<Rightarrow> byte list \<Rightarrow> failure + byte list" where
  "writeImportedFunctions [] offset buf = Inr buf"
| "writeImportedFunctions (imported # rest) offset buf =
    (case PutUint64 buf offset (imported_executable imported) of
       Inl f \<Rightarrow> Inl f
     | Inr buf1 \<Rightarrow>
        (case imported_vmctx imported of
           None \<Rightarrow> Inl (Panic ''runtime error: invalid memory address or nil pointer dereference'')
         | Some p \<Rightarrow>
            (case PutUint64 buf1 (offset + 8) p of
               Inl f \<Rightarrow> Inl f
             | Inr buf2 \<Rightarrow> writeImportedFunctions rest (offset + 8 + 8) buf2)))"

definition buildOpaqueVMContext :: "allocator \<Rightarrow> vmContext \<Rightarrow> failure + vmContext" where
  "buildOpaqueVMContext a vm =
    (case module vm of
       None \<Rightarrow> Inr vm
     | Some mi \<Rightarrow>
        (case parent vm of
           None \<Rightarrow> Inl (Panic ''runtime error: invalid memory address or nil pointer dereference'')
         | Some compiled \<Rightarrow>
            let offs = vmOffsets compiled in
            if totalSize offs = 0 then Inr vm
            else if sint (totalSize offs) < 0
            then Inl (Panic ''runtime error: makeslice: len out of range'')
            else
              let buf0 = replicate (nat (sint (totalSize offs))) (0 :: byte);
                  vm1 = vm\<lparr>opaqueVmContext := buf0, opaqueVmContextPtr := newOpaqueVmContext a\<rparr>;
                  r1 = (if sint (localMemoryBegin offs) \<ge> 0
                        then (let memBuf = MemoryInstanceBuffer mi in
                              case PutUint64 buf0 (localMemoryBegin offs) (memBufVar a) of
                                Inl f \<Rightarrow> Inl f
                              | Inr b \<Rightarrow> PutUint64 b (localMemoryBegin offs + 8)
                                          (of_nat (length (sliceBytes memBuf))))
                        else Inr buf0)
              in (case r1 of
                    Inl f \<Rightarrow> Inl f
                  | Inr buf1 \<Rightarrow>
                     (case (if sint (importedMemoryBegin offs) \<ge> 0
                            then PutUint64 buf1 (importedMemoryBegin offs)
                                   (ImportedMemoryInstancePtr mi)
                            else Inr buf1) of
                        Inl f \<Rightarrow> Inl f
                      | Inr buf2 \<Rightarrow>
                         (case writeImportedFunctions (importedFunctions vm)
                                 (importedFunctionsBegin offs) buf2 of
                            Inl f \<Rightarrow> Inl f
                          | Inr buf3 \<Rightarrow> Inr (vm1\<lparr>opaqueVmContext := buf3\<rparr>))))))"

section \<open>Instantiation: \<open>NewModuleEngine\<close>\<close>

text \<open>
  The loop over \<open>importedModuleInstances\<close>: \<open>i\<close> is the loop index, \<open>fs\<close> the
  \<open>importedFunctions\<close> slice of the context under construction.
\<close>

fun resolveImports ::
  "(nat \<rightharpoonup> vmContext) \<Rightarrow> nat list \<Rightarrow> uint32 list \<Rightarrow> nat \<Rightarrow> vmContextImportedFunction list
     \<Rightarrow> failure + vmContextImportedFunction list" where
  "resolveImports vs [] idxs i fs = Inr fs"
| "resolveImports vs (imi # insts) idxs i fs =
    (if length idxs \<le> i then Inl (Panic ''runtime error: index out of range'')
     else
       (case vs imi of
          None \<Rightarrow> Inl (Panic ''BUG'')
        | Some importedVmCtx \<Rightarrow>
           (case resolveFunctionExecutable importedVmCtx (idxs ! i) of
              Inl f \<Rightarrow> Inl f
            | Inr ex \<Rightarrow>
               if length fs \<le> i then Inl (Panic ''runtime error: index out of range'')
               else resolveImports vs insts idxs (Suc i)
                      (fs[i := \<lparr>imported_executable = ex,
                                imported_vmctx = Some (opaqueVmContextPtr importedVmCtx)\<rparr>]))))"

text \<open>
  \<open>NewModuleEngine\<close> returns the engine state it leaves behind and either the failure
  or the new VM context (the returned bundle of closures is the context's methods).
\<close>

definition NewModuleEngine ::
  "allocator \<Rightarrow> engine \<Rightarrow> string \<Rightarrow> Module \<Rightarrow> ModuleInstance \<Rightarrow> engine \<times> (failure + vmContext)" where
  "NewModuleEngine a e name m mi =
    (let imported = nat (uint (ImportFuncCount m));
         vmctx = \<lparr>opaqueVmContextPtr = 0, parent = None,
                  importedFunctions =
                    replicate imported \<lparr>imported_executable = 0, imported_vmctx = None\<rparr>,
                  module = None, opaqueVmContext = []\<rparr>
     in case resolveImports (vmctxs e) (fst (ImportedFunctions mi)) (snd (ImportedFunctions mi))
               0 (importedFunctions vmctx) of
          Inl f \<Rightarrow> (e, Inl f)
        | Inr fs \<Rightarrow>
           (case modules e (ModuleID m) of
              None \<Rightarrow>
                (e, Inl (Error (''source module for '' @ name
                                 @ '' must be compiled before instantiation'')))
            | Some compiled \<Rightarrow>
               (case buildOpaqueVMContext a
                       (vmctx\<lparr>importedFunctions := fs, parent := Some compiled,
                               module := Some mi\<rparr>) of
                  Inl f \<Rightarrow> (e, Inl f)
                | Inr vm \<Rightarrow> (e\<lparr>vmctxs := (vmctxs e)(handleID mi \<mapsto> vm)\<rparr>, Inr vm))))"

section \<open>Call engines\<close>

text \<open>The value types of the WebAssembly binary format (\<open>wasm.ValueTypeI32\<close> ...).\<close>

definition ValueTypeI32 :: byte where "ValueTypeI32 = 0x7f"
definition ValueTypeI64 :: byte where "ValueTypeI64 = 0x7e"

record callEngine =
  entry :: uintptr
  ce_executable :: uintptr
  setParamsExecutable :: uintptr
  resultsHolderPtr :: uintptr
  resultsHolder :: "byte list"
  stack :: byteSlice
  ce_alignedStackTop :: uintptr
  vmCtx :: vmContext
  results :: "byte list"

text \<open>
  The entry thunks and the parameter-setup stubs are generated per architecture:
  \<open>getEntryPoint\<close> yields the thunk for a signature, \<open>paramSetupFn\<close> the stub's code
  or an error.
\<close>

record archSupport =
  getEntryPoint :: "byte list \<Rightarrow> byte list \<Rightarrow> uintptr"
  paramSetupFn :: "byte list \<Rightarrow> byte list \<Rightarrow> string + byteSlice"

definition initialStackSizeInBytes :: nat where
  "initialStackSizeInBytes = 2 ^ 12"

text \<open>\<open>&s[len(s)-1]\<close> panics on an empty slice; addresses are 64-bit words.\<close>

definition alignedStackTop :: "byteSlice \<Rightarrow> failure + uintptr" where
  "alignedStackTop s =
    (if length (sliceBytes s) = 0 then Inl (Panic ''runtime error: index out of range [-1]'')
     else let stackAddr = sliceAddr s + of_nat (length (sliceBytes s) - 1)
          in Inr (stackAddr - (stackAddr AND (16 - 1))))"

definition NewCallEngine ::
  "archSupport \<Rightarrow> allocator \<Rightarrow> vmContext \<Rightarrow> FunctionInstance \<Rightarrow> failure + callEngine" where
  "NewCallEngine arch a vm f =
    (let (params, rs) = FunctionType f in
     case module vm of
       None \<Rightarrow> Inl (Panic ''runtime error: invalid memory address or nil pointer dereference'')
     | Some mi \<Rightarrow>
        if fnModuleInstanceName f \<noteq> ModuleInstanceName mi
        then Inl (Panic ''TODO: add test case to cover this after added support for imported functions'')
        else
          let s = \<lparr>sliceAddr = newStack a, sliceBytes = replicate initialStackSizeInBytes 0\<rparr> in
          (case alignedStackTop s of
             Inl p \<Rightarrow> Inl p
           | Inr aligned \<Rightarrow>
              let ent = getEntryPoint arch params rs in
              (case resolveFunctionExecutable vm (Index f) of
                 Inl p \<Rightarrow> Inl p
               | Inr ex \<Rightarrow>
                  let ce = \<lparr>entry = ent, ce_executable = ex, setParamsExecutable = 0,
                            resultsHolderPtr = 0, resultsHolder = [], stack = s,
                            ce_alignedStackTop = aligned, vmCtx = vm, results = rs\<rparr>;
                      ce1 = (if length rs > 0
                             then ce\<lparr>resultsHolder := replicate (length rs * 8) 0,
                                     resultsHolderPtr := newResultsHolder a\<rparr>
                             else ce)
                  in if length params > 0
                     then (case paramSetupFn arch params rs of
                             Inl err \<Rightarrow> Inl (Error err)
                           | Inr code \<Rightarrow>
                              if length (sliceBytes code) = 0
                              then Inl (Panic ''runtime error: index out of range [0]'')
                              else Inr (ce1\<lparr>setParamsExecutable := sliceAddr code\<rparr>))
                     else Inr ce1)))"

text \<open>
  The arguments \<open>Call\<close> hands to the entry thunk, in order; \<open>params\<close> is the
  caller's parameter array (its address and its bytes).
\<close>

definition entryArguments ::
  "callEngine \<Rightarrow> byteSlice
     \<Rightarrow> uintptr \<times> uintptr \<times> uintptr \<times> uintptr \<times> uintptr \<times> uintptr" where
  "entryArguments ce params =
    (if length (sliceBytes params) > 0
     then (opaqueVmContextPtr (vmCtx ce), ce_executable ce, ce_alignedStackTop ce,
           resultsHolderPtr ce, setParamsExecutable ce, sliceAddr params)
     else (opaqueVmContextPtr (vmCtx ce), ce_executable ce, ce_alignedStackTop ce,
           resultsHolderPtr ce, 0, 0))"



section \<open>Compilation: \<open>CompileModule\<close>\<close>

text \<open>
  The code generator is an opaque WebAssembly module. One run of \<open>compileFunction\<close>
  is described by what the engine sees of it: the bodies the generator handed to the
  host import \<open>compile_done\<close> while it ran, in order, and the error that \<open>_allocate\<close>
  or \<open>compile_function\<close> returned, if any. The generator is a function of the
  compilation context (module, function index) and of the encoded body.
\<close>

record generatorRun =
  compileDoneCalls :: "pendingCompiledBody list"
  returned :: "string option"

type_synonym generator = "Module \<Rightarrow> uint32 \<Rightarrow> byte list \<Rightarrow> byte list \<Rightarrow> generatorRun"

text \<open>\<open>exportCompileDone\<close>: append to the module's pending list (a missing key reads as the empty slice).\<close>

definition exportCompileDone :: "engine \<Rightarrow> Module \<Rightarrow> pendingCompiledBody \<Rightarrow> engine" where
  "exportCompileDone e m body =
    (let id = ModuleID m
     in e\<lparr>pendingCompiledFunctions :=
            (pendingCompiledFunctions e)
              (id \<mapsto> (case pendingCompiledFunctions e id of None \<Rightarrow> [] | Some l \<Rightarrow> l) @ [body])\<rparr>)"

definition compileFunction ::
  "generator \<Rightarrow> engine \<Rightarrow> Module \<Rightarrow> uint32 \<Rightarrow> byte list \<Rightarrow> byte list \<Rightarrow> engine \<times> string option" where
  "compileFunction gen e m funcId localTypes body =
    (let run = gen m funcId localTypes body
     in (foldl (\<lambda>e' b. exportCompileDone e' m b) e (compileDoneCalls run), returned run))"

text \<open>
  The loop over the code section: \<open>i\<close> is the \<open>uint32\<close> loop counter, the list holds
  \<open>CodeAt i\<close>, \<open>CodeAt (i+1)\<close>, ... up to \<open>CodeCount\<close>.
\<close>

fun compileFunctions ::
  "generator \<Rightarrow> engine \<Rightarrow> Module \<Rightarrow> uint32 \<Rightarrow> (byte list \<times> byte list) list
     \<Rightarrow> engine \<times> string option" where
  "compileFunctions gen e m i [] = (e, None)"
| "compileFunctions gen e m i ((localTypes, body) # rest) =
    (let funcId = i + ImportFuncCount m in
     case compileFunction gen e m funcId localTypes body of
       (e1, Some err) \<Rightarrow> (e1, Some err)
     | (e1, None) \<Rightarrow> compileFunctions gen e1 m (i + 1) rest)"

text \<open>The stitching loop: \<open>executableOffsets[i] = totalSize; totalSize += len(machineCode)\<close>.\<close>

fun stitch :: "pendingCompiledBody list \<Rightarrow> nat \<Rightarrow> nat list \<times> nat" where
  "stitch [] totalSize' = ([], totalSize')"
| "stitch (compiled # rest) totalSize' =
    (let (offs, t) = stitch rest (totalSize' + length (machineCode compiled))
     in (totalSize' # offs, t))"

text \<open>
  Modelled from the spec: \<open>applyFunctionRelocations\<close> (architecture-specific, not among
  the sources). The spec's relocation step reads the offsets and patches 4-byte slots
  inside the bodies, in place, with an encoding fixed by the generator's contract. The
  call comes after the readers over the same bytes were created, so whatever it
  writes, every body keeps its length. Its effect is the byte it leaves at position
  \<open>j\<close> of body \<open>i\<close>, given the byte the generator emitted there; \<open>None\<close> is a panic
  of the pass.
\<close>

type_synonym relocator =
  "uint32 \<Rightarrow> nat list \<Rightarrow> pendingCompiledBody list \<Rightarrow> (nat \<Rightarrow> nat \<Rightarrow> byte \<Rightarrow> byte) option"

definition patchedCode :: "(nat \<Rightarrow> nat \<Rightarrow> byte \<Rightarrow> byte) \<Rightarrow> pendingCompiledBody list \<Rightarrow> byte list list" where
  "patchedCode p fns =
    map (\<lambda>(i, c). map (\<lambda>(j, b). p i j b) (enumerate 0 (machineCode c))) (enumerate 0 fns)"

text \<open>
  Modelled from the spec: \<open>platform.MmapCodeSegment\<close> (package
  \<open>internal/wazero/platform\<close>, not among the sources). The spec's code-segment mapper
  is \<open>map(bytes_reader, size) -> executable_region\<close>, its failure an error of the
  caller: the region holds the \<open>size\<close> bytes read from the reader. Whether the mapping
  succeeds, and at which address, is the operating system's choice, the parameter
  \<open>os\<close>.
\<close>

type_synonym mapper = "byte list \<Rightarrow> nat \<Rightarrow> failure + uintptr"

definition MmapCodeSegment :: "mapper \<Rightarrow> byte list \<Rightarrow> nat \<Rightarrow> failure + byteSlice" where
  "MmapCodeSegment os code n =
    (case os code n of
       Inl f \<Rightarrow> Inl f
     | Inr addr \<Rightarrow> Inr \<lparr>sliceAddr = addr, sliceBytes = take n code\<rparr>)"

text \<open>
  \<open>CompileModule\<close> returns the engine state it leaves behind and the outcome. The
  readers are created before the relocation pass and read after it, by the mapper.
\<close>

definition CompileModule ::
  "generator \<Rightarrow> relocator \<Rightarrow> mapper \<Rightarrow> engine \<Rightarrow> Module \<Rightarrow> engine \<times> (failure + unit)" where
  "CompileModule gen reloc mmap e m =
    (if HostModule m then (e, Inl (Panic ''TODO''))
     else
       let offs = getOpaqueVmContextOffsets m;
           importedFns = ImportFuncCount m
       in case compileFunctions gen e m 0 (codes m) of
            (e1, Some err) \<Rightarrow> (e1, Inl (Error err))
          | (e1, None) \<Rightarrow>
             let id = ModuleID m in
             (case pendingCompiledFunctions e1 id of
                None \<Rightarrow> (e1, Inl (Panic ''BUG''))
              | Some compiledFns \<Rightarrow>
                 let (executableOffsets', totalSize') = stitch compiledFns 0 in
                 (case reloc importedFns executableOffsets' compiledFns of
                    None \<Rightarrow> (e1, Inl (Panic ''applyFunctionRelocations''))
                  | Some p \<Rightarrow>
                     let readers = concat (patchedCode p compiledFns) in
                     (case MmapCodeSegment mmap readers totalSize' of
                        Inl f \<Rightarrow> (e1, Inl f)
                      | Inr region \<Rightarrow>
                         let compiledMod =
                               \<lparr>executable = sliceBytes region,
                                executableAddr = sliceAddr region,
                                executableOffsets = executableOffsets', vmOffsets = offs\<rparr>
                         in (e1\<lparr>modules := (modules e1)(id \<mapsto> compiledMod),
                                 pendingCompiledFunctions :=
                                   (pendingCompiledFunctions e1)(id := None)\<rparr>,
                             Inr ())))))"

text \<open>\<open>DeleteCompiledModule\<close>, and the registries of a new engine.\<close>

definition DeleteCompiledModule :: "engine \<Rightarrow> Module \<Rightarrow> engine" where
  "DeleteCompiledModule e m = e\<lparr>modules := (modules e)(ModuleID m := None)\<rparr>"

definition NewEngine :: engine where
  "NewEngine = \<lparr>modules = Map.empty, pendingCompiledFunctions = Map.empty, vmctxs = Map.empty\<rparr>"

section \<open>Result decoding as the specification words it\<close>




section \<open>Sample inputs\<close>

text \<open>
  A module with one local memory and two local functions, a generator that emits one
  body per function, a relocation pass that patches nothing and a mapper that places
  the region at a fixed address.
\<close>

definition sampleModule :: Module where
  "sampleModule =
    \<lparr>ModuleID = 7, HostModule = False, ImportFuncCount = 0, LocalMemoriesCount = 1,
     ImportedMemoriesCount = 0,
     codes = [([], [0x41, 0x2a, 0x0b]), ([0x7f], [0x20, 0x00, 0x0b])]\<rparr>"

definition sampleBody :: "nat \<Rightarrow> pendingCompiledBody" where
  "sampleBody k = \<lparr>machineCode = (if k = 0 then [0xb8, 0x2a, 0xc3] else [0x90, 0xc3]),
                   relocs = []\<rparr>"

definition sampleGenerator :: generator where
  "sampleGenerator m funcId localTypes body =
    \<lparr>compileDoneCalls = [sampleBody (unat funcId)], returned = None\<rparr>"

definition noRelocations :: relocator where
  "noRelocations importedFns offs fns = Some (\<lambda>i j b. b)"

definition sampleMapper :: mapper where
  "sampleMapper code n = Inr 0x7f0000001000"

definition sampleCompiled :: compiledModule where
  "sampleCompiled =
    \<lparr>executable = [0xb8, 0x2a, 0xc3, 0x90, 0xc3], executableAddr = 0x7f0000001000,
     executableOffsets = [0, 3], vmOffsets = getOpaqueVmContextOffsets sampleModule\<rparr>"

definition sampleInstance :: ModuleInstance where
  "sampleInstance =
    \<lparr>handleID = 1, ModuleInstanceName = ''guest'',
     MemoryInstanceBuffer = \<lparr>sliceAddr = 0x7f0000010000, sliceBytes = replicate 65536 0\<rparr>,
     ImportedMemoryInstancePtr = 0, ImportedFunctions = ([], [])\<rparr>"

definition sampleAllocator :: allocator where
  "sampleAllocator =
    \<lparr>newOpaqueVmContext = 0xc000100000, memBufVar = 0xc000014018,
     newStack = 0xc000200008, newResultsHolder = 0xc000300000\<rparr>"

definition sampleVmContext :: vmContext where
  "sampleVmContext =
    \<lparr>opaqueVmContextPtr = 0xc000100000, parent = Some sampleCompiled, importedFunctions = [],
     module = Some sampleInstance, opaqueVmContext = replicate 16 0\<rparr>"

definition sampleArch :: archSupport where
  "sampleArch =
    \<lparr>getEntryPoint = (\<lambda>params rs. 0x401000),
     paramSetupFn = (\<lambda>params rs. Inr \<lparr>sliceAddr = 0x7f0000002000, sliceBytes = [0xc3]\<rparr>)\<rparr>"

definition sampleFunction :: FunctionInstance where
  "sampleFunction =
    \<lparr>fnModuleInstanceName = ''guest'',
     FunctionType = ([ValueTypeI32], [ValueTypeI32, ValueTypeI64]), Index = 1\<rparr>"


text \<open>
  A context with one imported function slot; a module and an instance that import one
  function from an instance (handle 9) the engine has no context for; a generator that
  fails on the second function; a mapper that fails; a module without code; and the
  context \<open>NewModuleEngine\<close> passes to \<open>buildOpaqueVMContext\<close> for an instance of the
  sample module.
\<close>

definition importingVmContext :: vmContext where
  "importingVmContext =
    sampleVmContext\<lparr>importedFunctions :=
      [\<lparr>imported_executable = 0x7f0000003000, imported_vmctx = Some 0xc000400000\<rparr>]\<rparr>"

definition importingModule :: Module where
  "importingModule = sampleModule\<lparr>ImportFuncCount := 1\<rparr>"

definition importingInstance :: ModuleInstance where
  "importingInstance = sampleInstance\<lparr>handleID := 2, ImportedFunctions := ([9], [0])\<rparr>"

definition failingGenerator :: generator where
  "failingGenerator m funcId localTypes body =
    (if funcId = 0 then \<lparr>compileDoneCalls = [sampleBody 0], returned = None\<rparr>
     else \<lparr>compileDoneCalls = [], returned = Some ''compile_function: generator failed''\<rparr>)"

definition failingMapper :: mapper where
  "failingMapper code n = Inl (Error ''mmap: cannot allocate memory'')"

definition emptyModule :: Module where
  "emptyModule = sampleModule\<lparr>codes := []\<rparr>"

definition freshVmContext :: "ModuleInstance \<Rightarrow> vmContext" where
  "freshVmContext mi =
    \<lparr>opaqueVmContextPtr = 0, parent = Some sampleCompiled, importedFunctions = [],
     module = Some mi, opaqueVmContext = []\<rparr>"

section \<open>Properties\<close>

subsection \<open>Word arithmetic of the layout\<close>

lemma uint_ucast_32_64: "uint (ucast (n::uint32) :: 64 word) = uint n"
  by (simp add: uint_up_ucast is_up)

lemma uint32_bound: "uint (n::uint32) < 2^32"
  using uint_bounded[of n] by simp

lemma sint_small_offset:
  assumes c: "0 \<le> c" "c \<le> 24"
  shows "sint ((word_of_int c :: 64 word) + ucast (n::uint32) * 16) = c + 16 * uint n"
proof -
  have b: "uint n < 2^32" by (rule uint32_bound)
  have lo: "0 \<le> c + uint n * 16" using c by (simp add: add_nonneg_nonneg)
  have hi: "c + uint n * 16 < 2^63" using c b by simp
  have "uint ((word_of_int c :: 64 word) + ucast n * 16) = (c + uint n * 16) mod 2^64"
    by (simp add: uint_word_ariths uint_ucast_32_64 mod_simps uint_word_of_int)
  also have "\<dots> = c + uint n * 16"
    using lo hi by (simp add: mod_pos_pos_trivial)
  finally have e: "uint ((word_of_int c :: 64 word) + ucast n * 16) = c + uint n * 16" .
  have "sint ((word_of_int c :: 64 word) + ucast n * 16) = signed_take_bit 63 (c + uint n * 16)"
    by (simp add: sint_uint e)
  also have "\<dots> = c + uint n * 16"
  proof (rule signed_take_bit_int_eq_self)
    show "- (2 ^ 63) \<le> c + uint n * 16" using lo by simp
    show "c + uint n * 16 < 2 ^ 63" by (rule hi)
  qed
  finally show ?thesis by simp
qed

subsection \<open>C1: the layout computed by \<open>getOpaqueVmContextOffsets\<close>\<close>

text \<open>
  C1. For every module descriptor the layout is: \<open>localMemoryBegin = 0\<close> with 16 bytes
  reserved when the module has a local memory, otherwise \<open>-1\<close>; \<open>importedMemoryBegin\<close>
  is the next offset with 8 bytes reserved when the module has an imported memory,
  otherwise \<open>-1\<close>; \<open>importedFunctionsBegin\<close> is the offset after those reservations;
  and \<open>importedFunctionsBegin + 16 * ImportFuncCount = totalSize\<close>, read as signed
  64-bit integers without wrap-around.
\<close>

theorem getOpaqueVmContextOffsets_layout:
  "(let r = getOpaqueVmContextOffsets m;
        lm = (LocalMemoriesCount m > 0);
        im = (ImportedMemoriesCount m > 0)
    in localMemoryBegin r = (if lm then 0 else - 1)
     \<and> importedMemoryBegin r = (if im then (if lm then 16 else 0) else - 1)
     \<and> importedFunctionsBegin r = (if lm then 16 else 0) + (if im then 8 else 0)
     \<and> sint (importedFunctionsBegin r) = (if lm then 16 else 0) + (if im then 8 else 0)
     \<and> sint (totalSize r)
         = (if lm then 16 else 0) + (if im then 8 else 0) + 16 * uint (ImportFuncCount m)
     \<and> sint (importedFunctionsBegin r) + 16 * uint (ImportFuncCount m) = sint (totalSize r))"
  using sint_small_offset[of 0 "ImportFuncCount m"] sint_small_offset[of 8 "ImportFuncCount m"]
        sint_small_offset[of 16 "ImportFuncCount m"] sint_small_offset[of 24 "ImportFuncCount m"]
  by (simp add: getOpaqueVmContextOffsets_def Let_def)

theorem getOpaqueVmContextOffsets_layout_witness:
  "(let m = \<lparr>ModuleID = 1, HostModule = False, ImportFuncCount = 3, LocalMemoriesCount = 1,
             ImportedMemoriesCount = 0, codes = []\<rparr>;
        r = getOpaqueVmContextOffsets m
    in localMemoryBegin r = 0 \<and> importedMemoryBegin r = - 1 \<and> importedFunctionsBegin r = 16
     \<and> sint (totalSize r) = 64 \<and> sint (importedFunctionsBegin r) + 16 * 3 = sint (totalSize r))"
  using getOpaqueVmContextOffsets_layout
    [of "\<lparr>ModuleID = 1, HostModule = False, ImportFuncCount = 3, LocalMemoriesCount = 1,
             ImportedMemoriesCount = 0, codes = []\<rparr>"]
  by (simp add: Let_def)

subsection \<open>Stitching and concatenation\<close>

lemma stitch_length: "length (fst (stitch fns t)) = length fns"
  by (induction fns arbitrary: t) (simp_all add: split_beta Let_def)

lemma stitch_total: "snd (stitch fns t) = t + sum_list (map (\<lambda>c. length (machineCode c)) fns)"
  by (induction fns arbitrary: t) (simp_all add: split_beta Let_def)

lemma stitch_offset:
  "i < length fns \<Longrightarrow>
     fst (stitch fns t) ! i = t + sum_list (map (\<lambda>c. length (machineCode c)) (take i fns))"
proof (induction fns arbitrary: t i)
  case Nil
  then show ?case by simp
next
  case (Cons c fns)
  show ?case
  proof (cases i)
    case 0
    then show ?thesis by (simp add: split_beta Let_def)
  next
    case (Suc j)
    then have "j < length fns" using Cons.prems by simp
    from Cons.IH[OF this] show ?thesis using Suc by (simp add: split_beta Let_def)
  qed
qed

lemma patchedCode_length: "length (patchedCode p fns) = length fns"
  by (simp add: patchedCode_def)

lemma patchedCode_nth:
  "i < length fns \<Longrightarrow>
     patchedCode p fns ! i = map (\<lambda>(j, b). p i j b) (enumerate 0 (machineCode (fns ! i)))"
  by (simp add: patchedCode_def nth_enumerate_eq)

lemma patchedCode_lengths:
  "map length (patchedCode p fns) = map (\<lambda>c. length (machineCode c)) fns"
  by (rule nth_equalityI) (simp_all add: patchedCode_length patchedCode_nth)

lemma concat_drop_prefix:
  "i \<le> length xss \<Longrightarrow> drop (sum_list (map length (take i xss))) (concat xss) = concat (drop i xss)"
proof (induction xss arbitrary: i)
  case Nil
  then show ?case by simp
next
  case (Cons xs xss)
  then show ?case by (cases i) simp_all
qed

lemma concat_segment:
  assumes "i < length xss"
  shows "take (length (xss ! i)) (drop (sum_list (map length (take i xss))) (concat xss)) = xss ! i"
proof -
  have "drop i xss = xss ! i # drop (Suc i) xss" using assms by (simp add: Cons_nth_drop_Suc)
  then show ?thesis using assms by (simp add: concat_drop_prefix)
qed

lemma exportCompileDone_simps:
  "pendingCompiledFunctions (exportCompileDone e m b) (ModuleID m)
     = Some ((case pendingCompiledFunctions e (ModuleID m) of None \<Rightarrow> [] | Some l \<Rightarrow> l) @ [b])"
  "modules (exportCompileDone e m b) = modules e"
  "vmctxs (exportCompileDone e m b) = vmctxs e"
  by (simp_all add: exportCompileDone_def Let_def)

lemma compileFunctions_once:
  assumes "\<forall>k < length cs. gen m (i + of_nat k + ImportFuncCount m) (fst (cs ! k)) (snd (cs ! k))
                = \<lparr>compileDoneCalls = [g k], returned = None\<rparr>"
  shows "snd (compileFunctions gen e m i cs) = None
       \<and> modules (fst (compileFunctions gen e m i cs)) = modules e
       \<and> pendingCompiledFunctions (fst (compileFunctions gen e m i cs)) (ModuleID m)
           = (if cs = [] then pendingCompiledFunctions e (ModuleID m)
              else Some ((case pendingCompiledFunctions e (ModuleID m) of None \<Rightarrow> [] | Some l \<Rightarrow> l)
                         @ map g [0..<length cs]))"
  using assms
proof (induction cs arbitrary: e i g)
  case Nil
  then show ?case by simp
next
  case (Cons c cs)
  obtain localTypes body where c: "c = (localTypes, body)" by (cases c)
  have g0: "gen m (i + ImportFuncCount m) localTypes body = \<lparr>compileDoneCalls = [g 0], returned = None\<rparr>"
    using Cons.prems[rule_format, of 0] c by simp
  let ?e1 = "exportCompileDone e m (g 0)"
  have step: "compileFunctions gen e m i (c # cs) = compileFunctions gen ?e1 m (i + 1) cs"
    using g0 c by (simp add: compileFunction_def Let_def)
  have "\<forall>k < length cs. gen m ((i + 1) + of_nat k + ImportFuncCount m) (fst (cs ! k)) (snd (cs ! k))
                = \<lparr>compileDoneCalls = [(g \<circ> Suc) k], returned = None\<rparr>"
  proof (intro allI impI)
    fix k assume "k < length cs"
    then have "Suc k < length (c # cs)" by simp
    from Cons.prems[rule_format, OF this]
    show "gen m ((i + 1) + of_nat k + ImportFuncCount m) (fst (cs ! k)) (snd (cs ! k))
                = \<lparr>compileDoneCalls = [(g \<circ> Suc) k], returned = None\<rparr>"
      by (simp add: add.assoc add.commute add.left_commute)
  qed
  from Cons.IH[OF this, of ?e1]
  have ih: "snd (compileFunctions gen ?e1 m (i + 1) cs) = None"
      "modules (fst (compileFunctions gen ?e1 m (i + 1) cs)) = modules ?e1"
      "pendingCompiledFunctions (fst (compileFunctions gen ?e1 m (i + 1) cs)) (ModuleID m)
           = (if cs = [] then pendingCompiledFunctions ?e1 (ModuleID m)
              else Some ((case pendingCompiledFunctions ?e1 (ModuleID m) of None \<Rightarrow> [] | Some l \<Rightarrow> l)
                         @ map (g \<circ> Suc) [0..<length cs]))"
    by simp_all
  have m: "map g [0..<length (c # cs)] = g 0 # map (g \<circ> Suc) [0..<length cs]"
    by (simp add: map_upt_Suc del: upt_Suc)
  show ?case
    unfolding step using ih m
    by (simp add: exportCompileDone_simps del: upt_Suc)
qed


subsection \<open>Stitching the pending list\<close>

text \<open>
  When \<open>CompileModule\<close> succeeds, let \<open>fns\<close> be the pending bodies it stitched (the
  module's pending list after the compile loop). The registered compiled module has,
  for every index \<open>i\<close> of \<open>fns\<close>, \<open>executableOffsets[i]\<close> equal to the sum of the
  machine-code lengths of the pending bodies before \<open>i\<close>; the executable's size is the
  sum of all lengths; and the bytes of the executable from \<open>executableOffsets[i]\<close> on
  are body \<open>i\<close> as the relocation pass left it. Only when the pending list was empty
  before the call, and the generator handed exactly one body to \<open>compile_done\<close> per
  function, is body \<open>i\<close> the one emitted for function \<open>i + ImportFuncCount\<close>; in that
  case the call does succeed whenever the relocation pass and the mapper do.
\<close>

lemma CompileModule_stitches_pending_list:
  assumes ok: "CompileModule gen reloc mmap e m = (e', Inr ())"
  shows "\<exists>cm fns p.
            pendingCompiledFunctions (fst (compileFunctions gen e m 0 (codes m))) (ModuleID m)
              = Some fns
          \<and> reloc (ImportFuncCount m) (executableOffsets cm) fns = Some p
          \<and> modules e' (ModuleID m) = Some cm
          \<and> length (executableOffsets cm) = length fns
          \<and> length (executable cm) = sum_list (map (\<lambda>c. length (machineCode c)) fns)
          \<and> (\<forall>i < length fns.
                executableOffsets cm ! i = sum_list (map (\<lambda>c. length (machineCode c)) (take i fns))
              \<and> take (length (machineCode (fns ! i)))
                   (drop (executableOffsets cm ! i) (executable cm))
                  = map (\<lambda>(j, b). p i j b) (enumerate 0 (machineCode (fns ! i)))
              \<and> (machineCode (fns ! i) \<noteq> [] \<longrightarrow>
                   executableOffsets cm ! i < length (executable cm)
                 \<and> executable cm ! (executableOffsets cm ! i) = p i 0 (hd (machineCode (fns ! i)))))
          \<and> (pendingCompiledFunctions e (ModuleID m) = None
               \<and> (\<forall>k < length (codes m).
                     gen m (of_nat k + ImportFuncCount m) (fst (codes m ! k)) (snd (codes m ! k))
                       = \<lparr>compileDoneCalls = [g k], returned = None\<rparr>)
              \<longrightarrow> fns = map g [0..<length (codes m)])"
proof -
  let ?id = "ModuleID m"
  let ?len = "\<lambda>c. length (machineCode c)"
  let ?r = "compileFunctions gen e m 0 (codes m)"
  have nh: "\<not> HostModule m" using ok by (auto simp: CompileModule_def)
  obtain e1 where e1: "?r = (e1, None)"
    using ok nh by (cases ?r; cases "snd ?r") (auto simp: CompileModule_def Let_def)
  obtain fns where p1: "pendingCompiledFunctions e1 ?id = Some fns"
    using ok nh e1 by (cases "pendingCompiledFunctions e1 ?id") (auto simp: CompileModule_def Let_def)
  let ?offs = "fst (stitch fns 0)"
  let ?tot = "snd (stitch fns 0)"
  obtain p where p: "reloc (ImportFuncCount m) ?offs fns = Some p"
    using ok nh e1 p1
    by (cases "reloc (ImportFuncCount m) ?offs fns")
       (auto simp: CompileModule_def Let_def split_beta)
  let ?readers = "concat (patchedCode p fns)"
  obtain addr where addr: "mmap ?readers ?tot = Inr addr"
    using ok nh e1 p1 p
    by (cases "mmap ?readers ?tot")
       (auto simp: CompileModule_def MmapCodeSegment_def Let_def split_beta)
  let ?cm = "\<lparr>executable = take ?tot ?readers, executableAddr = addr,
              executableOffsets = ?offs, vmOffsets = getOpaqueVmContextOffsets m\<rparr>"
  have e': "e' = e1\<lparr>modules := (modules e1)(?id \<mapsto> ?cm),
                    pendingCompiledFunctions := (pendingCompiledFunctions e1)(?id := None)\<rparr>"
    using ok nh e1 p1 p addr by (simp add: CompileModule_def MmapCodeSegment_def Let_def split_beta)
  have tot: "?tot = sum_list (map ?len fns)" by (simp add: stitch_total)
  have lens: "map length (patchedCode p fns) = map ?len fns" by (rule patchedCode_lengths)
  have rlen: "length ?readers = ?tot"
    unfolding tot by (simp only: length_concat lens)
  have exe: "executable ?cm = ?readers" using rlen by simp
  have offs: "?offs ! i = sum_list (map ?len (take i fns))" if "i < length fns" for i
    using that stitch_offset[of i fns 0] by simp
  have offs': "?offs ! i = sum_list (map length (take i (patchedCode p fns)))" if "i < length fns" for i
    using that stitch_offset[of i fns 0] by (simp add: take_map[symmetric] lens del: map_map)
  have seg: "take (length (machineCode (fns ! i))) (drop (?offs ! i) ?readers)
               = map (\<lambda>(j, b). p i j b) (enumerate 0 (machineCode (fns ! i)))" if "i < length fns" for i
  proof -
    have il: "i < length (patchedCode p fns)" using that by (simp add: patchedCode_length)
    have pn: "patchedCode p fns ! i = map (\<lambda>(j, b). p i j b) (enumerate 0 (machineCode (fns ! i)))"
      using that by (simp add: patchedCode_nth)
    have "take (length (patchedCode p fns ! i)) (drop (?offs ! i) ?readers) = patchedCode p fns ! i"
      unfolding offs'[OF that] using il by (rule concat_segment)
    then show ?thesis unfolding pn by simp
  qed
  have first: "?offs ! i < length ?readers
             \<and> ?readers ! (?offs ! i) = p i 0 (hd (machineCode (fns ! i)))"
    if "i < length fns" "machineCode (fns ! i) \<noteq> []" for i
  proof -
    let ?seg = "map (\<lambda>(j, b). p i j b) (enumerate 0 (machineCode (fns ! i)))"
    have s: "take (length (machineCode (fns ! i))) (drop (?offs ! i) ?readers) = ?seg"
      using that(1) by (rule seg)
    have pos: "0 < length (machineCode (fns ! i))" using that(2) by simp
    have "length (take (length (machineCode (fns ! i))) (drop (?offs ! i) ?readers))
            = length (machineCode (fns ! i))"
      unfolding s by simp
    then have "min (length (machineCode (fns ! i))) (length ?readers - ?offs ! i)
                 = length (machineCode (fns ! i))"
      by simp
    then have "0 < length ?readers - ?offs ! i" using pos by linarith
    then have lt: "?offs ! i < length ?readers" by simp
    have "?readers ! (?offs ! i)
            = take (length (machineCode (fns ! i))) (drop (?offs ! i) ?readers) ! 0"
      using pos lt by simp
    also have "\<dots> = ?seg ! 0" unfolding s ..
    also have "\<dots> = p i 0 (hd (machineCode (fns ! i)))"
      using pos by (simp add: nth_enumerate_eq hd_conv_nth)
    finally show ?thesis using lt by simp
  qed
  have gen: "fns = map g [0..<length (codes m)]"
    if fresh: "pendingCompiledFunctions e ?id = None"
    and once: "\<forall>k < length (codes m).
                 gen m (of_nat k + ImportFuncCount m) (fst (codes m ! k)) (snd (codes m ! k))
                   = \<lparr>compileDoneCalls = [g k], returned = None\<rparr>"
  proof -
    have once': "\<forall>k < length (codes m).
                   gen m (0 + of_nat k + ImportFuncCount m) (fst (codes m ! k)) (snd (codes m ! k))
                     = \<lparr>compileDoneCalls = [g k], returned = None\<rparr>"
      using once by simp
    note cf = compileFunctions_once[where cs = "codes m" and gen = gen and m = m and i = 0
                                     and g = g and e = e, OF once']
    have "pendingCompiledFunctions e1 ?id
            = (if codes m = [] then None else Some (map g [0..<length (codes m)]))"
      using cf fresh e1 by simp
    then show ?thesis using p1 by (simp split: if_splits)
  qed
  show ?thesis
  proof (intro exI[of _ ?cm] exI[of _ fns] exI[of _ p] conjI allI impI)
    show "pendingCompiledFunctions (fst ?r) ?id = Some fns" using e1 p1 by simp
    show "reloc (ImportFuncCount m) (executableOffsets ?cm) fns = Some p" using p by simp
    show "modules e' ?id = Some ?cm" unfolding e' by simp
    show "length (executableOffsets ?cm) = length fns" by (simp add: stitch_length)
    show "length (executable ?cm) = sum_list (map ?len fns)"
      unfolding exe rlen by (rule tot)
  next
    fix i assume i: "i < length fns"
    show "executableOffsets ?cm ! i = sum_list (map ?len (take i fns))"
      using offs[OF i] by simp
    show "take (length (machineCode (fns ! i))) (drop (executableOffsets ?cm ! i) (executable ?cm))
            = map (\<lambda>(j, b). p i j b) (enumerate 0 (machineCode (fns ! i)))"
      unfolding exe using seg[OF i] by simp
  next
    fix i assume i: "i < length fns" and ne: "machineCode (fns ! i) \<noteq> []"
    show "executableOffsets ?cm ! i < length (executable ?cm)"
      unfolding exe using first[OF i ne] by simp
    show "executable ?cm ! (executableOffsets ?cm ! i) = p i 0 (hd (machineCode (fns ! i)))"
      unfolding exe using first[OF i ne] by simp
  next
    assume "pendingCompiledFunctions e ?id = None
               \<and> (\<forall>k < length (codes m).
                     gen m (of_nat k + ImportFuncCount m) (fst (codes m ! k)) (snd (codes m ! k))
                       = \<lparr>compileDoneCalls = [g k], returned = None\<rparr>)"
    then show "fns = map g [0..<length (codes m)]" using gen by blast
  qed
qed


lemma CompileModule_fresh_sample:
  "CompileModule sampleGenerator noRelocations sampleMapper NewEngine sampleModule
     = (fst (CompileModule sampleGenerator noRelocations sampleMapper NewEngine sampleModule), Inr ())
   \<and> pendingCompiledFunctions NewEngine (ModuleID sampleModule) = None
   \<and> map (\<lambda>k. sampleGenerator sampleModule (of_nat k + ImportFuncCount sampleModule)
                 (fst (codes sampleModule ! k)) (snd (codes sampleModule ! k)))
         [0..<length (codes sampleModule)]
       = map (\<lambda>k. \<lparr>compileDoneCalls = [sampleBody k], returned = None\<rparr>)
           [0..<length (codes sampleModule)]
   \<and> (\<exists>cm. modules (fst (CompileModule sampleGenerator noRelocations sampleMapper NewEngine
                                sampleModule)) 7 = Some cm
          \<and> executableOffsets cm = [0, 3]
          \<and> length (executable cm) = 5
          \<and> executable cm ! (executableOffsets cm ! 0) = 0xb8
          \<and> executable cm ! (executableOffsets cm ! 1) = 0x90)"
proof -
  let ?e' = "fst (CompileModule sampleGenerator noRelocations sampleMapper NewEngine sampleModule)"
  let ?len = "\<lambda>c. length (machineCode c)"
  have ok: "CompileModule sampleGenerator noRelocations sampleMapper NewEngine sampleModule
              = (?e', Inr ())"
    by (simp add: CompileModule_def MmapCodeSegment_def compileFunction_def exportCompileDone_def
        sampleModule_def sampleGenerator_def noRelocations_def sampleMapper_def NewEngine_def
        Let_def split_beta)
  have fresh: "pendingCompiledFunctions NewEngine (ModuleID sampleModule) = None"
    by (simp add: NewEngine_def)
  have len: "length (codes sampleModule) = 2" by (simp add: sampleModule_def)
  have once: "\<forall>k < length (codes sampleModule).
                sampleGenerator sampleModule (of_nat k + ImportFuncCount sampleModule)
                  (fst (codes sampleModule ! k)) (snd (codes sampleModule ! k))
                  = \<lparr>compileDoneCalls = [sampleBody k], returned = None\<rparr>"
    unfolding len by (simp add: sampleGenerator_def sampleModule_def less_Suc_eq numeral_2_eq_2)
  from CompileModule_stitches_pending_list[OF ok, of sampleBody]
  obtain cm fns p where cm:
      "noRelocations (ImportFuncCount sampleModule) (executableOffsets cm) fns = Some p"
      "modules ?e' (ModuleID sampleModule) = Some cm"
      "length (executableOffsets cm) = length fns"
      "length (executable cm) = sum_list (map ?len fns)"
      "\<forall>i < length fns.
          executableOffsets cm ! i = sum_list (map ?len (take i fns))
        \<and> take (length (machineCode (fns ! i))) (drop (executableOffsets cm ! i) (executable cm))
            = map (\<lambda>(j, b). p i j b) (enumerate 0 (machineCode (fns ! i)))
        \<and> (machineCode (fns ! i) \<noteq> [] \<longrightarrow>
             executableOffsets cm ! i < length (executable cm)
           \<and> executable cm ! (executableOffsets cm ! i) = p i 0 (hd (machineCode (fns ! i))))"
      "pendingCompiledFunctions NewEngine (ModuleID sampleModule) = None
         \<and> (\<forall>k < length (codes sampleModule).
               sampleGenerator sampleModule (of_nat k + ImportFuncCount sampleModule)
                 (fst (codes sampleModule ! k)) (snd (codes sampleModule ! k))
                 = \<lparr>compileDoneCalls = [sampleBody k], returned = None\<rparr>)
        \<longrightarrow> fns = map sampleBody [0..<length (codes sampleModule)]"
    by (elim exE conjE)
  have "fns = map sampleBody [0..<length (codes sampleModule)]"
    using cm(6) fresh once by (rule mp[OF _ conjI])
  then have fns: "fns = [sampleBody 0, sampleBody 1]"
    unfolding len by (simp add: numeral_2_eq_2)
  have p: "p = (\<lambda>i j b. b)" using cm(1) by (simp add: noRelocations_def)
  have o0: "executableOffsets cm ! 0 = 0" using cm(5)[rule_format, of 0] fns by simp
  have o1: "executableOffsets cm ! 1 = 3"
    using cm(5)[rule_format, of 1] fns by (simp add: sampleBody_def)
  have offs: "executableOffsets cm = [0, 3]"
    using cm(3) o0 o1 fns by (intro nth_equalityI) (auto simp: less_Suc_eq numeral_2_eq_2)
  have l: "length (executable cm) = 5"
    using cm(4) fns by (simp add: sampleBody_def)
  have b0: "executable cm ! (executableOffsets cm ! 0) = 0xb8"
    using cm(5)[rule_format, of 0] fns p by (auto simp: sampleBody_def)
  have b1: "executable cm ! (executableOffsets cm ! 1) = 0x90"
    using cm(5)[rule_format, of 1] fns p by (auto simp: sampleBody_def)
  have id7: "ModuleID sampleModule = 7" by (simp add: sampleModule_def)
  have ex: "\<exists>cm. modules ?e' 7 = Some cm
          \<and> executableOffsets cm = [0, 3]
          \<and> length (executable cm) = 5
          \<and> executable cm ! (executableOffsets cm ! 0) = 0xb8
          \<and> executable cm ! (executableOffsets cm ! 1) = 0x90"
    using cm(2) offs l b0 b1 unfolding id7 by (intro exI[of _ cm]) simp
  have m: "map (\<lambda>k. sampleGenerator sampleModule (of_nat k + ImportFuncCount sampleModule)
                 (fst (codes sampleModule ! k)) (snd (codes sampleModule ! k)))
         [0..<length (codes sampleModule)]
       = map (\<lambda>k. \<lparr>compileDoneCalls = [sampleBody k], returned = None\<rparr>)
           [0..<length (codes sampleModule)]"
    using once by simp
  show ?thesis using ok fresh m ex by (intro conjI)
qed

lemma CompileModule_fresh_succeeds:
  assumes nh: "\<not> HostModule m"
      and ne: "codes m \<noteq> []"
      and fresh: "pendingCompiledFunctions e (ModuleID m) = None"
      and once: "\<forall>k < length (codes m).
                   gen m (of_nat k + ImportFuncCount m) (fst (codes m ! k)) (snd (codes m ! k))
                     = \<lparr>compileDoneCalls = [g k], returned = None\<rparr>"
      and rel: "reloc (ImportFuncCount m) (fst (stitch (map g [0..<length (codes m)]) 0))
                  (map g [0..<length (codes m)]) = Some p"
      and mm: "mmap (concat (patchedCode p (map g [0..<length (codes m)])))
                 (snd (stitch (map g [0..<length (codes m)]) 0)) = Inr addr"
  shows "snd (CompileModule gen reloc mmap e m) = Inr ()"
proof -
  let ?r = "compileFunctions gen e m 0 (codes m)"
  have once': "\<forall>k < length (codes m).
                 gen m (0 + of_nat k + ImportFuncCount m) (fst (codes m ! k)) (snd (codes m ! k))
                   = \<lparr>compileDoneCalls = [g k], returned = None\<rparr>"
    using once by simp
  note cf = compileFunctions_once[where cs = "codes m" and gen = gen and m = m and i = 0
                                   and g = g and e = e, OF once']
  have r2: "snd ?r = None" using cf by simp
  have pend: "pendingCompiledFunctions (fst ?r) (ModuleID m) = Some (map g [0..<length (codes m)])"
    using cf fresh ne by simp
  obtain e1 where e1: "?r = (e1, None)" using r2 by (cases ?r) simp
  have p1: "pendingCompiledFunctions e1 (ModuleID m) = Some (map g [0..<length (codes m)])"
    using pend e1 by simp
  show ?thesis
    using nh e1 p1 rel mm
    by (simp add: CompileModule_def MmapCodeSegment_def Let_def split_beta)
qed

subsection \<open>C3: offsets of the locally defined functions\<close>


subsection \<open>Stack alignment\<close>

lemma and15: "unat ((x::64 word) AND (16 - 1)) = unat x mod 16"
proof -
  have "(16 - 1 :: 64 word) = mask 4" by (simp add: mask_eq_exp_minus_1)
  then have "x AND (16 - 1) = take_bit 4 x" by (simp add: take_bit_eq_mask)
  then show ?thesis by (simp add: take_bit_eq_mod unat_mod)
qed

lemma align_down: "unat ((x::64 word) - (x AND (16 - 1))) = unat x - unat x mod 16"
proof -
  have "unat (x AND (16 - 1)) \<le> unat x"
    unfolding and15 by simp
  then have "x AND (16 - 1) \<le> x" by (simp add: word_le_nat_alt)
  then have "unat (x - (x AND (16 - 1))) = unat x - unat (x AND (16 - 1))"
    by (rule unat_sub)
  then show ?thesis by (simp only: and15)
qed

lemma last_byte_addr:
  assumes "0 < n" "unat (b::64 word) + n \<le> 2^64"
  shows "unat (b + of_nat (n - 1)) = unat b + n - 1"
proof -
  have lt: "n - 1 < 2^64" using assms by simp
  have "unat (of_nat (n - 1) :: 64 word) = n - 1"
    using lt by (simp add: unat_of_nat)
  moreover have "unat b + unat (of_nat (n - 1) :: 64 word) < 2^LENGTH(64)"
    using assms calculation by simp
  ultimately show ?thesis
    using assms by (simp add: unat_add_lem[THEN iffD1])
qed

lemma alignedStackTop_ok:
  assumes "16 \<le> length (sliceBytes s)"
      and "unat (sliceAddr s) + length (sliceBytes s) \<le> 2 ^ 64"
  shows "\<exists>top. alignedStackTop s = Inr top \<and> unat top mod 16 = 0
           \<and> unat (sliceAddr s) \<le> unat top
           \<and> unat top < unat (sliceAddr s) + length (sliceBytes s)"
proof -
  let ?n = "length (sliceBytes s)"
  let ?x = "sliceAddr s + of_nat (?n - 1)"
  have pos: "0 < ?n" using assms(1) by linarith
  have x: "unat ?x = unat (sliceAddr s) + ?n - 1"
    using pos assms(2) by (rule last_byte_addr)
  have top: "unat (?x - (?x AND (16 - 1))) = unat ?x - unat ?x mod 16"
    by (rule align_down)
  have r: "alignedStackTop s = Inr (?x - (?x AND (16 - 1)))"
    using assms by (auto simp: alignedStackTop_def Let_def)
  have m: "(unat ?x - unat ?x mod 16) mod 16 = 0"
    by (simp add: minus_mod_eq_mult_div)
  have lo: "unat (sliceAddr s) \<le> unat ?x - unat ?x mod 16"
    using assms x by (simp; presburger)
  have hi: "unat ?x - unat ?x mod 16 < unat (sliceAddr s) + ?n"
    using assms x by simp
  show ?thesis
  proof (intro exI conjI)
    show "alignedStackTop s = Inr (?x - (?x AND (16 - 1)))" by (rule r)
    show "unat (?x - (?x AND (16 - 1))) mod 16 = 0" by (simp only: top m)
    show "unat (sliceAddr s) \<le> unat (?x - (?x AND (16 - 1)))" by (simp only: top lo)
    show "unat (?x - (?x AND (16 - 1))) < unat (sliceAddr s) + ?n" by (simp only: top hi)
  qed
qed


lemma alignedStackTop_aligned:
  assumes "1 \<le> length (sliceBytes s)"
      and "unat (sliceAddr s) + length (sliceBytes s) \<le> 2 ^ 64"
  shows "\<exists>top. alignedStackTop s = Inr top \<and> unat top mod 16 = 0"
proof -
  let ?x = "sliceAddr s + of_nat (length (sliceBytes s) - 1)"
  have r: "alignedStackTop s = Inr (?x - (?x AND (16 - 1)))"
    using assms by (auto simp: alignedStackTop_def Let_def)
  have m: "unat (?x - (?x AND (16 - 1))) mod 16 = 0"
    by (simp only: align_down) (simp add: minus_mod_eq_mult_div)
  show ?thesis
  proof (intro exI conjI)
    show "alignedStackTop s = Inr (?x - (?x AND (16 - 1)))" by (rule r)
    show "unat (?x - (?x AND (16 - 1))) mod 16 = 0" by (rule m)
  qed
qed

lemma NewCallEngine_stack:
  assumes "NewCallEngine arch a vm f = Inr ce"
  shows "alignedStackTop \<lparr>sliceAddr = newStack a, sliceBytes = replicate initialStackSizeInBytes 0\<rparr>
           = Inr (ce_alignedStackTop ce)
         \<and> stack ce = \<lparr>sliceAddr = newStack a, sliceBytes = replicate initialStackSizeInBytes 0\<rparr>"
  using assms
  by (auto simp: NewCallEngine_def Let_def
           split: prod.splits option.splits sum.splits if_splits)

subsection \<open>C9: the aligned stack top\<close>

text \<open>
  C9 (as amended). For every stack buffer that does not wrap around the address space,
  \<open>alignedStackTop\<close> returns an address that is 0 modulo 16 as soon as the buffer has
  at least 1 byte, and that address lies within the buffer as soon as the buffer has at
  least 16 bytes (the engine allocates 4096). Every call engine that \<open>NewCallEngine\<close>
  returns therefore holds a stack top that is 16-byte aligned and within its stack,
  and \<open>Call\<close> hands exactly that address to the entry thunk.
\<close>

theorem alignedStackTop_aligned_within_buffer:
  "(1 \<le> length (sliceBytes s) \<and> unat (sliceAddr s) + length (sliceBytes s) \<le> 2 ^ 64
      \<longrightarrow> (\<exists>top. alignedStackTop s = Inr top \<and> unat top mod 16 = 0))
   \<and> (16 \<le> length (sliceBytes s) \<and> unat (sliceAddr s) + length (sliceBytes s) \<le> 2 ^ 64
      \<longrightarrow> (\<exists>top. alignedStackTop s = Inr top \<and> unat top mod 16 = 0
                 \<and> unat (sliceAddr s) \<le> unat top
                 \<and> unat top < unat (sliceAddr s) + length (sliceBytes s)))
   \<and> (NewCallEngine arch a vm f = Inr ce \<and> unat (newStack a) + initialStackSizeInBytes \<le> 2 ^ 64
      \<longrightarrow> unat (ce_alignedStackTop ce) mod 16 = 0
          \<and> unat (sliceAddr (stack ce)) \<le> unat (ce_alignedStackTop ce)
          \<and> unat (ce_alignedStackTop ce)
              < unat (sliceAddr (stack ce)) + length (sliceBytes (stack ce))
          \<and> fst (snd (snd (entryArguments ce params))) = ce_alignedStackTop ce)"
proof (intro conjI impI)
  assume "1 \<le> length (sliceBytes s) \<and> unat (sliceAddr s) + length (sliceBytes s) \<le> 2 ^ 64"
  then show "\<exists>top. alignedStackTop s = Inr top \<and> unat top mod 16 = 0"
    by (simp add: alignedStackTop_aligned)
next
  assume "16 \<le> length (sliceBytes s) \<and> unat (sliceAddr s) + length (sliceBytes s) \<le> 2 ^ 64"
  then show "\<exists>top. alignedStackTop s = Inr top \<and> unat top mod 16 = 0
                 \<and> unat (sliceAddr s) \<le> unat top
                 \<and> unat top < unat (sliceAddr s) + length (sliceBytes s)"
    by (simp add: alignedStackTop_ok)
next
  assume h: "NewCallEngine arch a vm f = Inr ce \<and> unat (newStack a) + initialStackSizeInBytes \<le> 2 ^ 64"
  let ?s = "\<lparr>sliceAddr = newStack a, sliceBytes = replicate initialStackSizeInBytes 0\<rparr>"
  have st: "alignedStackTop ?s = Inr (ce_alignedStackTop ce)" "stack ce = ?s"
    using h NewCallEngine_stack by blast+
  have c1: "16 \<le> length (sliceBytes ?s)" by (simp add: initialStackSizeInBytes_def)
  have c2: "unat (sliceAddr ?s) + length (sliceBytes ?s) \<le> 2 ^ 64" using h by simp
  have "\<exists>top. alignedStackTop ?s = Inr top \<and> unat top mod 16 = 0
           \<and> unat (sliceAddr ?s) \<le> unat top
           \<and> unat top < unat (sliceAddr ?s) + length (sliceBytes ?s)"
    using c1 c2 by (rule alignedStackTop_ok)
  then obtain top where t: "alignedStackTop ?s = Inr top" "unat top mod 16 = 0"
      "unat (sliceAddr ?s) \<le> unat top" "unat top < unat (sliceAddr ?s) + length (sliceBytes ?s)"
    by (elim exE conjE)
  have e: "top = ce_alignedStackTop ce" using t(1) st(1) by simp
  show "unat (ce_alignedStackTop ce) mod 16 = 0" using t(2) e by simp
  show "unat (sliceAddr (stack ce)) \<le> unat (ce_alignedStackTop ce)" using t(3) e st(2) by simp
  show "unat (ce_alignedStackTop ce) < unat (sliceAddr (stack ce)) + length (sliceBytes (stack ce))"
    using t(4) e st(2) by simp
  show "fst (snd (snd (entryArguments ce params))) = ce_alignedStackTop ce"
    by (simp add: entryArguments_def)
qed

theorem alignedStackTop_aligned_within_buffer_witness:
  "(let s = \<lparr>sliceAddr = 0xc000200008, sliceBytes = replicate 4096 0\<rparr>
    in 16 \<le> length (sliceBytes s) \<and> unat (sliceAddr s) + length (sliceBytes s) \<le> 2 ^ 64
       \<and> (\<exists>top. alignedStackTop s = Inr top \<and> unat top mod 16 = 0
                 \<and> unat (sliceAddr s) \<le> unat top
                 \<and> unat top < unat (sliceAddr s) + length (sliceBytes s)))
   \<and> unat (newStack sampleAllocator) + initialStackSizeInBytes \<le> 2 ^ 64
   \<and> (\<exists>ce. NewCallEngine sampleArch sampleAllocator sampleVmContext sampleFunction = Inr ce
          \<and> unat (ce_alignedStackTop ce) mod 16 = 0
          \<and> unat (sliceAddr (stack ce)) \<le> unat (ce_alignedStackTop ce)
          \<and> unat (ce_alignedStackTop ce)
              < unat (sliceAddr (stack ce)) + length (sliceBytes (stack ce))
          \<and> fst (snd (snd (entryArguments ce \<lparr>sliceAddr = 0, sliceBytes = []\<rparr>)))
              = ce_alignedStackTop ce)"
proof -
  let ?s = "\<lparr>sliceAddr = 0xc000200008 :: uintptr, sliceBytes = replicate 4096 (0 :: byte)\<rparr>"
  have s1: "16 \<le> length (sliceBytes ?s)" by simp
  have s2: "unat (sliceAddr ?s) + length (sliceBytes ?s) \<le> 2 ^ 64" by simp
  have a2: "unat (newStack sampleAllocator) + initialStackSizeInBytes \<le> 2 ^ 64"
    by (simp add: sampleAllocator_def initialStackSizeInBytes_def)
  have "\<exists>ce. NewCallEngine sampleArch sampleAllocator sampleVmContext sampleFunction = Inr ce"
    by (simp add: NewCallEngine_def sampleArch_def sampleAllocator_def sampleVmContext_def
        sampleFunction_def sampleInstance_def sampleCompiled_def resolveFunctionExecutable_def
        alignedStackTop_def initialStackSizeInBytes_def Let_def)
  then obtain ce where ce: "NewCallEngine sampleArch sampleAllocator sampleVmContext sampleFunction = Inr ce" ..
  note t = alignedStackTop_aligned_within_buffer
             [of ?s sampleArch sampleAllocator sampleVmContext sampleFunction ce
                 "\<lparr>sliceAddr = 0, sliceBytes = []\<rparr>"]
  have p1: "\<exists>top. alignedStackTop ?s = Inr top \<and> unat top mod 16 = 0
                 \<and> unat (sliceAddr ?s) \<le> unat top
                 \<and> unat top < unat (sliceAddr ?s) + length (sliceBytes ?s)"
    using t s1 s2 by blast
  have p2: "unat (ce_alignedStackTop ce) mod 16 = 0
          \<and> unat (sliceAddr (stack ce)) \<le> unat (ce_alignedStackTop ce)
          \<and> unat (ce_alignedStackTop ce)
              < unat (sliceAddr (stack ce)) + length (sliceBytes (stack ce))
          \<and> fst (snd (snd (entryArguments ce \<lparr>sliceAddr = 0, sliceBytes = []\<rparr>)))
              = ce_alignedStackTop ce"
    using t ce a2 by blast
  have ex2: "\<exists>ce. NewCallEngine sampleArch sampleAllocator sampleVmContext sampleFunction = Inr ce
          \<and> unat (ce_alignedStackTop ce) mod 16 = 0
          \<and> unat (sliceAddr (stack ce)) \<le> unat (ce_alignedStackTop ce)
          \<and> unat (ce_alignedStackTop ce)
              < unat (sliceAddr (stack ce)) + length (sliceBytes (stack ce))
          \<and> fst (snd (snd (entryArguments ce \<lparr>sliceAddr = 0, sliceBytes = []\<rparr>)))
              = ce_alignedStackTop ce"
  proof (rule exI[of _ ce])
    show "NewCallEngine sampleArch sampleAllocator sampleVmContext sampleFunction = Inr ce
          \<and> unat (ce_alignedStackTop ce) mod 16 = 0
          \<and> unat (sliceAddr (stack ce)) \<le> unat (ce_alignedStackTop ce)
          \<and> unat (ce_alignedStackTop ce)
              < unat (sliceAddr (stack ce)) + length (sliceBytes (stack ce))
          \<and> fst (snd (snd (entryArguments ce \<lparr>sliceAddr = 0, sliceBytes = []\<rparr>)))
              = ce_alignedStackTop ce"
      using ce p2 by (rule conjI)
  qed
  show ?thesis
    unfolding Let_def using s1 s2 p1 a2 ex2 by (intro conjI)
qed

text \<open>
  C9 as stated (every buffer of length at least 1) fails: a one-byte buffer at an
  address that is not a multiple of 16 gets a stack top below its first byte.
\<close>

theorem alignedStackTop_small_buffer_counterexample:
  "(let s = \<lparr>sliceAddr = 0xc000012345, sliceBytes = [0]\<rparr>
    in 1 \<le> length (sliceBytes s) \<and> alignedStackTop s = Inr 0xc000012340
       \<and> \<not> (unat (sliceAddr s) \<le> unat (0xc000012340 :: uintptr)))"
  by (simp add: alignedStackTop_def Let_def)


subsection \<open>Result decoding\<close>






subsection \<open>C7: the results buffer and its decoding\<close>





subsection \<open>C10: call engines for imported functions\<close>

text \<open>
  C10. For every function instance whose module-instance name differs from the name of
  the VM context's own module instance, \<open>NewCallEngine\<close> panics: it returns neither a
  call engine nor an error. A call engine is only ever returned for a function of the
  same module instance.
\<close>

theorem NewCallEngine_imported_function_panics:
  "(module vm = Some mi \<and> fnModuleInstanceName f \<noteq> ModuleInstanceName mi
      \<longrightarrow> NewCallEngine arch a vm f
            = Inl (Panic ''TODO: add test case to cover this after added support for imported functions'')
          \<and> (\<forall>ce. NewCallEngine arch a vm f \<noteq> Inr ce)
          \<and> (\<forall>err. NewCallEngine arch a vm f \<noteq> Inl (Error err)))
   \<and> (NewCallEngine arch a vm f = Inr ce
      \<longrightarrow> (\<exists>mi. module vm = Some mi \<and> fnModuleInstanceName f = ModuleInstanceName mi))"
proof (intro conjI impI)
  assume h: "module vm = Some mi \<and> fnModuleInstanceName f \<noteq> ModuleInstanceName mi"
  then show p: "NewCallEngine arch a vm f
            = Inl (Panic ''TODO: add test case to cover this after added support for imported functions'')"
    by (simp add: NewCallEngine_def split_beta)
  show "\<forall>ce. NewCallEngine arch a vm f \<noteq> Inr ce" unfolding p by simp
  show "\<forall>err. NewCallEngine arch a vm f \<noteq> Inl (Error err)" unfolding p by simp
next
  assume "NewCallEngine arch a vm f = Inr ce"
  then show "\<exists>mi. module vm = Some mi \<and> fnModuleInstanceName f = ModuleInstanceName mi"
    by (auto simp: NewCallEngine_def split_beta split: option.splits if_splits)
qed

theorem NewCallEngine_imported_function_panics_witness:
  "module sampleVmContext = Some sampleInstance
   \<and> fnModuleInstanceName (sampleFunction\<lparr>fnModuleInstanceName := ''host''\<rparr>)
       \<noteq> ModuleInstanceName sampleInstance
   \<and> NewCallEngine sampleArch sampleAllocator sampleVmContext
        (sampleFunction\<lparr>fnModuleInstanceName := ''host''\<rparr>)
       = Inl (Panic ''TODO: add test case to cover this after added support for imported functions'')
   \<and> (\<exists>ce. NewCallEngine sampleArch sampleAllocator sampleVmContext sampleFunction = Inr ce
          \<and> fnModuleInstanceName sampleFunction = ModuleInstanceName sampleInstance)"
proof -
  let ?f = "sampleFunction\<lparr>fnModuleInstanceName := ''host''\<rparr>"
  have m: "module sampleVmContext = Some sampleInstance" by (simp add: sampleVmContext_def)
  have n: "fnModuleInstanceName ?f \<noteq> ModuleInstanceName sampleInstance"
    by (simp add: sampleInstance_def)
  have "\<exists>ce. NewCallEngine sampleArch sampleAllocator sampleVmContext sampleFunction = Inr ce"
    by (simp add: NewCallEngine_def sampleArch_def sampleAllocator_def sampleVmContext_def
        sampleFunction_def sampleInstance_def sampleCompiled_def resolveFunctionExecutable_def
        alignedStackTop_def initialStackSizeInBytes_def Let_def)
  then obtain ce where ce: "NewCallEngine sampleArch sampleAllocator sampleVmContext sampleFunction = Inr ce" ..
  have p: "NewCallEngine sampleArch sampleAllocator sampleVmContext ?f
       = Inl (Panic ''TODO: add test case to cover this after added support for imported functions'')"
    using NewCallEngine_imported_function_panics
            [of sampleVmContext sampleInstance ?f sampleArch sampleAllocator ce] m n
    by blast
  have "\<exists>mi. module sampleVmContext = Some mi
             \<and> fnModuleInstanceName sampleFunction = ModuleInstanceName mi"
    using NewCallEngine_imported_function_panics
            [of sampleVmContext sampleInstance sampleFunction sampleArch sampleAllocator ce] ce
    by blast
  then have e: "fnModuleInstanceName sampleFunction = ModuleInstanceName sampleInstance"
    using m by simp
  have ex: "\<exists>ce. NewCallEngine sampleArch sampleAllocator sampleVmContext sampleFunction = Inr ce
          \<and> fnModuleInstanceName sampleFunction = ModuleInstanceName sampleInstance"
    using ce e by (intro exI[of _ ce]) simp
  show ?thesis using m n p ex by (intro conjI)
qed

subsection \<open>C4: resolving a function's executable\<close>

text \<open>
  C4 (as amended). When the index is local (at least the number of imported functions)
  and designates an entry of the offsets table that lies inside the executable,
  \<open>resolveFunctionExecutable\<close> returns the address of
  \<open>executable[executableOffsets[index - imported_count]]\<close> in the parent compiled
  module, that is the region's address plus the offset. When the index designates an
  imported function it panics with the message that it must be called only on locally
  defined functions; it does not follow the import chain.
\<close>

theorem resolveFunctionExecutable_local_or_panic:
  "(parent vm = Some compiled
      \<and> length (importedFunctions vm) \<le> unat functionIndex
      \<and> unat functionIndex - length (importedFunctions vm) < length (executableOffsets compiled)
      \<and> executableOffsets compiled ! (unat functionIndex - length (importedFunctions vm))
           < length (executable compiled)
      \<longrightarrow> resolveFunctionExecutable vm functionIndex
            = Inr (executableAddr compiled
                   + of_nat (executableOffsets compiled
                               ! (unat functionIndex - length (importedFunctions vm)))))
   \<and> (unat functionIndex < length (importedFunctions vm)
      \<longrightarrow> resolveFunctionExecutable vm functionIndex
            = Inl (Panic ''BUG: resolveFunction must be called only on locally defined functions''))"
proof (intro conjI impI)
  assume h: "parent vm = Some compiled
      \<and> length (importedFunctions vm) \<le> unat functionIndex
      \<and> unat functionIndex - length (importedFunctions vm) < length (executableOffsets compiled)
      \<and> executableOffsets compiled ! (unat functionIndex - length (importedFunctions vm))
           < length (executable compiled)"
  have n: "nat (uint functionIndex - int (length (importedFunctions vm)))
             = unat functionIndex - length (importedFunctions vm)"
    by (simp add: nat_diff_distrib')
  have "length (importedFunctions vm) \<le> nat (uint functionIndex)" using h by simp
  then have ge: "uint functionIndex - int (length (importedFunctions vm)) \<ge> 0"
    using uint_ge_0[of functionIndex] by linarith
  show "resolveFunctionExecutable vm functionIndex
            = Inr (executableAddr compiled
                   + of_nat (executableOffsets compiled
                               ! (unat functionIndex - length (importedFunctions vm))))"
    using h ge by (simp add: resolveFunctionExecutable_def Let_def n)
next
  assume h: "unat functionIndex < length (importedFunctions vm)"
  have "nat (uint functionIndex) < length (importedFunctions vm)" using h by simp
  then have "\<not> (uint functionIndex - int (length (importedFunctions vm)) \<ge> 0)"
    using uint_ge_0[of functionIndex] by linarith
  then show "resolveFunctionExecutable vm functionIndex
            = Inl (Panic ''BUG: resolveFunction must be called only on locally defined functions'')"
    by (simp add: resolveFunctionExecutable_def Let_def)
qed

theorem resolveFunctionExecutable_local_or_panic_witness:
  "parent sampleVmContext = Some sampleCompiled
   \<and> length (importedFunctions sampleVmContext) \<le> unat (1 :: uint32)
   \<and> unat (1 :: uint32) - length (importedFunctions sampleVmContext)
        < length (executableOffsets sampleCompiled)
   \<and> executableOffsets sampleCompiled ! (unat (1 :: uint32) - length (importedFunctions sampleVmContext))
        < length (executable sampleCompiled)
   \<and> resolveFunctionExecutable sampleVmContext 1 = Inr 0x7f0000001003
   \<and> unat (0 :: uint32) < length (importedFunctions importingVmContext)
   \<and> resolveFunctionExecutable importingVmContext 0
       = Inl (Panic ''BUG: resolveFunction must be called only on locally defined functions'')"
proof -
  have a: "parent sampleVmContext = Some sampleCompiled" by (simp add: sampleVmContext_def)
  have b: "length (importedFunctions sampleVmContext) \<le> unat (1 :: uint32)"
    by (simp add: sampleVmContext_def)
  have c: "unat (1 :: uint32) - length (importedFunctions sampleVmContext)
        < length (executableOffsets sampleCompiled)"
    by (simp add: sampleVmContext_def sampleCompiled_def)
  have d: "executableOffsets sampleCompiled ! (unat (1 :: uint32) - length (importedFunctions sampleVmContext))
        < length (executable sampleCompiled)"
    by (simp add: sampleVmContext_def sampleCompiled_def)
  have "resolveFunctionExecutable sampleVmContext 1
            = Inr (executableAddr sampleCompiled
                   + of_nat (executableOffsets sampleCompiled
                               ! (unat (1 :: uint32) - length (importedFunctions sampleVmContext))))"
    using resolveFunctionExecutable_local_or_panic[of sampleVmContext sampleCompiled 1] a b c d
    by blast
  then have e: "resolveFunctionExecutable sampleVmContext 1 = Inr 0x7f0000001003"
    by (simp add: sampleVmContext_def sampleCompiled_def)
  have f: "unat (0 :: uint32) < length (importedFunctions importingVmContext)"
    by (simp add: importingVmContext_def)
  have g: "resolveFunctionExecutable importingVmContext 0
       = Inl (Panic ''BUG: resolveFunction must be called only on locally defined functions'')"
    using resolveFunctionExecutable_local_or_panic[of importingVmContext sampleCompiled 0] f
    by blast
  show ?thesis using a b c d e f g by (intro conjI)
qed

text \<open>
  C4 as stated fails: on a context with one imported function, index 0 does not resolve
  to the entry recorded for the import; the call panics.
\<close>

theorem resolveFunctionExecutable_imported_index_counterexample:
  "importedFunctions importingVmContext
     = [\<lparr>imported_executable = 0x7f0000003000, imported_vmctx = Some 0xc000400000\<rparr>]
   \<and> uint (0 :: uint32) < int (length (importedFunctions importingVmContext))
   \<and> resolveFunctionExecutable importingVmContext 0
       = Inl (Panic ''BUG: resolveFunction must be called only on locally defined functions'')
   \<and> resolveFunctionExecutable importingVmContext 0 \<noteq> Inr 0x7f0000003000"
  by (simp add: importingVmContext_def sampleVmContext_def resolveFunctionExecutable_def Let_def)

subsection \<open>C6: instantiating a module that was not compiled\<close>

lemma NewModuleEngine_absent:
  assumes "modules e (ModuleID m) = None"
  shows "NewModuleEngine a e name m mi =
    (e, case resolveImports (vmctxs e) (fst (ImportedFunctions mi)) (snd (ImportedFunctions mi)) 0
               (replicate (nat (uint (ImportFuncCount m)))
                  \<lparr>imported_executable = 0, imported_vmctx = None\<rparr>) of
          Inl p \<Rightarrow> Inl p
        | Inr fs \<Rightarrow> Inl (Error (''source module for '' @ name
                                  @ '' must be compiled before instantiation'')))"
  using assms by (simp add: NewModuleEngine_def Let_def split: sum.splits)

text \<open>
  C6 (as amended). For every instance whose module id is absent from the
  compiled-module registry, \<open>NewModuleEngine\<close> leaves the engine, and so the \<open>vmctxs\<close>
  registry, unchanged and returns no module engine. When the imported functions of the
  instance resolve (in particular when there are none) it returns an error whose
  message contains the name it was given. When resolving an import panics (the
  imported instance has no registered context, or its index does not resolve there),
  that panic is the outcome: imports are resolved before the registry is consulted.
\<close>

theorem NewModuleEngine_uncompiled_module:
  "(modules e (ModuleID m) = None
      \<longrightarrow> fst (NewModuleEngine a e name m mi) = e
          \<and> vmctxs (fst (NewModuleEngine a e name m mi)) = vmctxs e
          \<and> (\<forall>vm. snd (NewModuleEngine a e name m mi) \<noteq> Inr vm))
   \<and> (modules e (ModuleID m) = None
        \<and> resolveImports (vmctxs e) (fst (ImportedFunctions mi)) (snd (ImportedFunctions mi)) 0
             (replicate (nat (uint (ImportFuncCount m)))
                \<lparr>imported_executable = 0, imported_vmctx = None\<rparr>) = Inr fs
      \<longrightarrow> (\<exists>msg. snd (NewModuleEngine a e name m mi) = Inl (Error msg) \<and> sublist name msg))
   \<and> (modules e (ModuleID m) = None \<and> fst (ImportedFunctions mi) = []
      \<longrightarrow> (\<exists>msg. snd (NewModuleEngine a e name m mi) = Inl (Error msg) \<and> sublist name msg))
   \<and> (modules e (ModuleID m) = None
        \<and> resolveImports (vmctxs e) (fst (ImportedFunctions mi)) (snd (ImportedFunctions mi)) 0
             (replicate (nat (uint (ImportFuncCount m)))
                \<lparr>imported_executable = 0, imported_vmctx = None\<rparr>) = Inl p
      \<longrightarrow> snd (NewModuleEngine a e name m mi) = Inl p)"
proof -
  let ?msg = "''source module for '' @ name @ '' must be compiled before instantiation''"
  have sub: "sublist name ?msg" by (rule sublist_appendI)
  show ?thesis
  proof (intro conjI impI)
    assume h: "modules e (ModuleID m) = None"
    show "fst (NewModuleEngine a e name m mi) = e"
      by (simp add: NewModuleEngine_absent[OF h])
    then show "vmctxs (fst (NewModuleEngine a e name m mi)) = vmctxs e" by simp
    show "\<forall>vm. snd (NewModuleEngine a e name m mi) \<noteq> Inr vm"
      by (simp add: NewModuleEngine_absent[OF h] split: sum.splits)
  next
    assume h: "modules e (ModuleID m) = None
        \<and> resolveImports (vmctxs e) (fst (ImportedFunctions mi)) (snd (ImportedFunctions mi)) 0
             (replicate (nat (uint (ImportFuncCount m)))
                \<lparr>imported_executable = 0, imported_vmctx = None\<rparr>) = Inr fs"
    then have "snd (NewModuleEngine a e name m mi) = Inl (Error ?msg)"
      by (simp add: NewModuleEngine_absent)
    then show "\<exists>msg. snd (NewModuleEngine a e name m mi) = Inl (Error msg) \<and> sublist name msg"
      using sub by blast
  next
    assume h: "modules e (ModuleID m) = None \<and> fst (ImportedFunctions mi) = []"
    then have "snd (NewModuleEngine a e name m mi) = Inl (Error ?msg)"
      by (simp add: NewModuleEngine_absent)
    then show "\<exists>msg. snd (NewModuleEngine a e name m mi) = Inl (Error msg) \<and> sublist name msg"
      using sub by blast
  next
    assume h: "modules e (ModuleID m) = None
        \<and> resolveImports (vmctxs e) (fst (ImportedFunctions mi)) (snd (ImportedFunctions mi)) 0
             (replicate (nat (uint (ImportFuncCount m)))
                \<lparr>imported_executable = 0, imported_vmctx = None\<rparr>) = Inl p"
    then show "snd (NewModuleEngine a e name m mi) = Inl p"
      by (simp add: NewModuleEngine_absent)
  qed
qed

theorem NewModuleEngine_uncompiled_module_witness:
  "modules NewEngine (ModuleID sampleModule) = None
   \<and> fst (ImportedFunctions sampleInstance) = []
   \<and> snd (NewModuleEngine sampleAllocator NewEngine ''guest'' sampleModule sampleInstance)
       = Inl (Error ''source module for guest must be compiled before instantiation'')
   \<and> sublist ''guest'' ''source module for guest must be compiled before instantiation''
   \<and> vmctxs (fst (NewModuleEngine sampleAllocator NewEngine ''guest'' sampleModule sampleInstance))
       = vmctxs NewEngine
   \<and> modules NewEngine (ModuleID importingModule) = None
   \<and> snd (NewModuleEngine sampleAllocator NewEngine ''guest'' importingModule importingInstance)
       = Inl (Panic ''BUG'')"
proof -
  have a: "modules NewEngine (ModuleID sampleModule) = None" by (simp add: NewEngine_def)
  have b: "fst (ImportedFunctions sampleInstance) = []" by (simp add: sampleInstance_def)
  note t = NewModuleEngine_uncompiled_module
             [of NewEngine sampleModule sampleAllocator "''guest''" sampleInstance]
  have c: "snd (NewModuleEngine sampleAllocator NewEngine ''guest'' sampleModule sampleInstance)
       = Inl (Error ''source module for guest must be compiled before instantiation'')"
    using a b by (simp add: NewModuleEngine_def sampleInstance_def sampleModule_def Let_def)
  have "\<exists>msg. snd (NewModuleEngine sampleAllocator NewEngine ''guest'' sampleModule sampleInstance)
               = Inl (Error msg) \<and> sublist ''guest'' msg"
    using t a b by blast
  then have d: "sublist ''guest'' ''source module for guest must be compiled before instantiation''"
    unfolding c by simp
  have e: "vmctxs (fst (NewModuleEngine sampleAllocator NewEngine ''guest'' sampleModule sampleInstance))
       = vmctxs NewEngine"
    using t a by blast
  have f: "modules NewEngine (ModuleID importingModule) = None" by (simp add: NewEngine_def)
  have r: "resolveImports (vmctxs NewEngine) (fst (ImportedFunctions importingInstance))
             (snd (ImportedFunctions importingInstance)) 0
             (replicate (nat (uint (ImportFuncCount importingModule)))
                \<lparr>imported_executable = 0, imported_vmctx = None\<rparr>) = Inl (Panic ''BUG'')"
    by (simp add: NewEngine_def importingInstance_def importingModule_def)
  have g: "snd (NewModuleEngine sampleAllocator NewEngine ''guest'' importingModule importingInstance)
       = Inl (Panic ''BUG'')"
    using NewModuleEngine_uncompiled_module
            [of NewEngine importingModule sampleAllocator "''guest''" importingInstance _ "Panic ''BUG''"]
          f r by blast
  show ?thesis using a b c d e f g by (intro conjI)
qed

text \<open>
  C6 as stated fails: for an uncompiled module whose instance imports a function from
  an instance without a registered context, the outcome is the panic \<open>BUG\<close>, not an
  error.
\<close>

theorem NewModuleEngine_unresolved_import_counterexample:
  "modules NewEngine (ModuleID importingModule) = None
   \<and> NewModuleEngine sampleAllocator NewEngine ''guest'' importingModule importingInstance
       = (NewEngine, Inl (Panic ''BUG''))
   \<and> (\<forall>msg. snd (NewModuleEngine sampleAllocator NewEngine ''guest'' importingModule
                     importingInstance) \<noteq> Inl (Error msg))"
  by (simp add: NewModuleEngine_def NewEngine_def importingInstance_def importingModule_def
      sampleInstance_def sampleModule_def Let_def)

subsection \<open>C2: the local-memory record of the VM context\<close>

lemma sampleLayout:
  "getOpaqueVmContextOffsets sampleModule
     = \<lparr>totalSize = 16, localMemoryBegin = 0, importedMemoryBegin = - 1,
        importedFunctionsBegin = 16\<rparr>"
  by (simp add: getOpaqueVmContextOffsets_def sampleModule_def Let_def)

lemma buildOpaqueVMContext_local_memory:
  "buildOpaqueVMContext a (freshVmContext mi)
     = Inr ((freshVmContext mi)
             \<lparr>opaqueVmContext := le_bytes64 (memBufVar a)
                                  @ le_bytes64 (of_nat (length (sliceBytes (MemoryInstanceBuffer mi)))),
              opaqueVmContextPtr := newOpaqueVmContext a\<rparr>)"
  by (simp add: buildOpaqueVMContext_def freshVmContext_def sampleCompiled_def sampleLayout
      PutUint64_def le_bytes64_def Let_def)

text \<open>
  C2. The claim: at offset \<open>localMemoryBegin\<close> the buffer holds the address of the
  first byte of the instance's memory buffer, and at \<open>localMemoryBegin + 8\<close> its
  length, both little-endian. The code takes \<open>&memBuf\<close>, the address of the local
  slice variable, so the first word is that variable's address and does not depend on
  where the memory buffer lies. For an instance of the sample module whose memory
  buffer is at \<open>0x7f0000010000\<close>, with \<open>memBuf\<close> placed at \<open>0xc000014018\<close>, the word
  at offset 0 is \<open>0xc000014018\<close>; the word at offset 8 is the length, as claimed.
\<close>

theorem buildOpaqueVMContext_local_memory_pointer:
  "(\<exists>vm. buildOpaqueVMContext sampleAllocator (freshVmContext sampleInstance) = Inr vm
         \<and> sint (localMemoryBegin (getOpaqueVmContextOffsets sampleModule)) = 0
         \<and> sliceAddr (MemoryInstanceBuffer sampleInstance) = 0x7f0000010000
         \<and> Uint64 (take 8 (drop 0 (opaqueVmContext vm))) = 0xc000014018
         \<and> Uint64 (take 8 (drop 0 (opaqueVmContext vm))) = memBufVar sampleAllocator
         \<and> Uint64 (take 8 (drop 0 (opaqueVmContext vm)))
             \<noteq> sliceAddr (MemoryInstanceBuffer sampleInstance)
         \<and> Uint64 (take 8 (drop 8 (opaqueVmContext vm))) = 65536)"
  by (simp add: buildOpaqueVMContext_local_memory sampleLayout sampleAllocator_def
      sampleInstance_def le_bytes64_def Uint64_def)

subsection \<open>C5: the engine's state after a failed compilation\<close>

text \<open>
  C5. The claim: when \<open>CompileModule\<close> returns an error, no pending bodies remain for
  the module id. On the sample module, when the generator fails on the second
  function the body of the first stays in \<open>pendingCompiledFunctions\<close>, and when the
  mapper fails both bodies stay; the pending list is only deleted on success.
\<close>

theorem CompileModule_error_leaves_pending_bodies:
  "(let r = CompileModule failingGenerator noRelocations sampleMapper NewEngine sampleModule
    in snd r = Inl (Error ''compile_function: generator failed'')
       \<and> pendingCompiledFunctions (fst r) (ModuleID sampleModule) = Some [sampleBody 0]
       \<and> modules (fst r) (ModuleID sampleModule) = None)
   \<and> (let r = CompileModule sampleGenerator noRelocations failingMapper NewEngine sampleModule
       in snd r = Inl (Error ''mmap: cannot allocate memory'')
          \<and> pendingCompiledFunctions (fst r) (ModuleID sampleModule)
              = Some [sampleBody 0, sampleBody 1]
          \<and> modules (fst r) (ModuleID sampleModule) = None)"
  by (simp add: CompileModule_def MmapCodeSegment_def compileFunction_def exportCompileDone_def
      sampleModule_def sampleGenerator_def failingGenerator_def failingMapper_def
      noRelocations_def sampleMapper_def NewEngine_def Let_def split_beta)

subsection \<open>C8: a module without local functions\<close>

text \<open>
  C8. The claim: compiling a module with zero locally defined functions succeeds.
  With no function compiled, \<open>compile_done\<close> never runs, the module has no entry in
  \<open>pendingCompiledFunctions\<close>, and \<open>CompileModule\<close> panics with \<open>BUG\<close> whatever the
  generator, the relocation pass and the mapper are.
\<close>

theorem CompileModule_zero_functions_panics:
  "codes emptyModule = [] \<and> \<not> HostModule emptyModule
   \<and> CompileModule gen reloc mmap NewEngine emptyModule = (NewEngine, Inl (Panic ''BUG''))"
  by (simp add: CompileModule_def emptyModule_def sampleModule_def NewEngine_def Let_def)

end
